theory Spec2Isabelle
  imports Main "HOL-Library.AList"
begin

section \<open>The E2B session manager: data model\<close>

text \<open>
  The development follows \<^verbatim>\<open>src/lib/e2b/session-manager.ts\<close>. JavaScript strings
  are modelled as \<^typ>\<open>string\<close> (code units below 256), timestamps (milliseconds, as
  \<^verbatim>\<open>Date.getTime()\<close> gives them) as \<^typ>\<open>int\<close>, and the execution counter as
  \<^typ>\<open>nat\<close>. A value that the source may find \<^verbatim>\<open>undefined\<close> is an
  \<^typ>\<open>'a option\<close>.
\<close>

text \<open>What a \<^verbatim>\<open>catch\<close> clause can receive: an \<^verbatim>\<open>Error\<close> object with its
  message, or any other thrown value.\<close>

datatype thrown = Error (message: string) | NonError

text \<open>The provider's handle of a remote sandbox.\<close>

datatype Sandbox = Sandbox (handle_sandboxId: string)

record SandboxCacheEntry =
  sandbox :: Sandbox
  sandboxId :: string
  createdAt :: int
  lastUsedAt :: int
  executionCount :: nat

datatype image_format = Png | Jpeg

record Image =
  format :: image_format
  base64 :: string

record ExecutionResult =
  stdout :: string
  images :: "Image list"
  error :: "string option"
  executionTimeMs :: int

text \<open>The provider's types: one structured result of a run, the interpreter-level error
  object, and the whole execution as \<^verbatim>\<open>runCode\<close> resolves it.\<close>

record Result =
  png :: "string option"
  jpeg :: "string option"

record ExecutionError =
  err_name :: "string option"
  err_value :: "string option"
  err_traceback :: "string option"

record Execution =
  logs_stdout :: "string list"
  logs_stderr :: "string list"
  results :: "Result list"
  exec_error :: "ExecutionError option"

section \<open>JavaScript primitives the source relies on\<close>

text \<open>Truthiness of a value of type \<^verbatim>\<open>string | undefined\<close>: \<^verbatim>\<open>undefined\<close> and the
  empty string are falsy.\<close>

fun truthy :: "string option \<Rightarrow> bool" where
  "truthy None = False"
| "truthy (Some s) = (s \<noteq> [])"

text \<open>\<^verbatim>\<open>Array.prototype.join\<close> on an array of strings.\<close>

fun join :: "string list \<Rightarrow> string \<Rightarrow> string" where
  "join [] sep = []"
| "join [x] sep = x"
| "join (x # y # ys) sep = x @ sep @ join (y # ys) sep"

text \<open>The line feed, \<^verbatim>\<open>'\n'\<close>.\<close>

definition LF :: char where
  "LF = CHR 0x0A"

text \<open>\<^verbatim>\<open>String.prototype.trim\<close> removes white space and line terminators from both
  ends; below 256 these are TAB, LF, VT, FF, CR, SP and NBSP.\<close>

definition isWhiteSpace :: "char \<Rightarrow> bool" where
  "isWhiteSpace c = (c \<in> set [CHR 0x09, CHR 0x0A, CHR 0x0B, CHR 0x0C, CHR 0x0D, CHR 0x20, CHR 0xA0])"

definition trim :: "string \<Rightarrow> string" where
  "trim s = rev (dropWhile isWhiteSpace (rev (dropWhile isWhiteSpace s)))"

section \<open>The executor's pure parts\<close>

text \<open>\<^verbatim>\<open>formatError\<close>: three conditional pushes onto \<^verbatim>\<open>errorParts\<close>, then a join.\<close>

definition formatError :: "ExecutionError \<Rightarrow> string" where
  "formatError e =
     (let errorParts0 = [];
          errorParts1 = (if truthy (err_name e) then errorParts0 @ [the (err_name e)] else errorParts0);
          errorParts2 = (if truthy (err_value e) then errorParts1 @ [the (err_value e)] else errorParts1);
          errorParts3 = (if truthy (err_traceback e) then errorParts2 @ [the (err_traceback e)] else errorParts2)
      in join errorParts3 [LF])"

text \<open>The loop of \<^verbatim>\<open>executeCode\<close> over \<^verbatim>\<open>execution.results\<close>; the second argument is
  the \<^verbatim>\<open>images\<close> array built so far.\<close>

fun extractImages :: "Result list \<Rightarrow> Image list \<Rightarrow> Image list" where
  "extractImages [] imgs = imgs"
| "extractImages (r # rs) imgs =
     extractImages rs
       (if truthy (png r) then imgs @ [\<lparr>format = Png, base64 = the (png r)\<rparr>]
        else if truthy (jpeg r) then imgs @ [\<lparr>format = Jpeg, base64 = the (jpeg r)\<rparr>]
        else imgs)"

section \<open>The store, the clock and the provider\<close>

text \<open>
  The state the manager works on. \<open>sandboxCache\<close> is the \<^verbatim>\<open>Map\<close> of the class, as
  an association list in insertion order (\<^verbatim>\<open>Map.get\<close> is \<^const>\<open>map_of\<close>,
  \<^verbatim>\<open>Map.set\<close> is \<^const>\<open>AList.update\<close>: it overwrites in place or appends,
  \<^verbatim>\<open>Map.delete\<close> is \<^const>\<open>AList.delete\<close>). The rest is the environment: \<open>clock\<close>
  gives the successive readings of the system clock and \<open>ticks\<close> counts the readings
  taken, so every \<^verbatim>\<open>Date.now()\<close> and \<^verbatim>\<open>new Date()\<close> of the source is one
  \<open>dateNow\<close>; \<open>created\<close> logs the sandboxes the provider has created and
  \<open>killRequests\<close> the sandboxes whose release has been requested by \<^verbatim>\<open>kill()\<close>.
  What the provider answers to an awaited call is an argument of the function that awaits.
\<close>

record world =
  sandboxCache :: "(string \<times> SandboxCacheEntry) list"
  clock :: "nat \<Rightarrow> int"
  ticks :: nat
  created :: "Sandbox list"
  killRequests :: "Sandbox list"

definition SESSION_IDLE_TIMEOUT :: int where
  "SESSION_IDLE_TIMEOUT = 30 * 60 * 1000"

definition SESSION_MAX_LIFETIME :: int where
  "SESSION_MAX_LIFETIME = 60 * 60 * 1000"

definition dateNow :: "world \<Rightarrow> int \<times> world" where
  "dateNow w = (clock w (ticks w), w\<lparr>ticks := Suc (ticks w)\<rparr>)"

definition isSessionValid :: "SandboxCacheEntry \<Rightarrow> world \<Rightarrow> bool \<times> world" where
  "isSessionValid entry w =
     (let (now, w1) = dateNow w;
          idleTime = now - lastUsedAt entry;
          lifetime = now - createdAt entry
      in if idleTime > SESSION_IDLE_TIMEOUT then (False, w1)
         else if lifetime > SESSION_MAX_LIFETIME then (False, w1)
         else (True, w1))"

section \<open>Get or create\<close>

text \<open>
  \<^verbatim>\<open>getOrCreateSandbox\<close> runs without interruption up to \<^verbatim>\<open>await Sandbox.create\<close>
  and again from the moment that promise settles. The two segments are defined
  separately; the function is their composition. \<open>getOrCreateSandbox_cached\<close> is the
  first segment (the lookup and the reuse branch): it yields the cached handle, or
  \<open>None\<close> when the call goes on to create a sandbox.
\<close>

definition getOrCreateSandbox_cached :: "string \<Rightarrow> world \<Rightarrow> Sandbox option \<times> world" where
  "getOrCreateSandbox_cached chatSessionId w =
     (case map_of (sandboxCache w) chatSessionId of
        None \<Rightarrow> (None, w)
      | Some cached \<Rightarrow>
          (let (valid, w1) = isSessionValid cached w in
           if valid then
             (let (t, w2) = dateNow w1;
                  cached' = cached\<lparr>lastUsedAt := t, executionCount := executionCount cached + 1\<rparr>
              in (Some (sandbox cached'),
                  w2\<lparr>sandboxCache := AList.update chatSessionId cached' (sandboxCache w2)\<rparr>))
           else (None, w1)))"

text \<open>The second segment, the \<^verbatim>\<open>try\<close> block once \<^verbatim>\<open>Sandbox.create\<close> has settled with
  \<open>createOutcome\<close>: a rejection is rethrown wrapped, a sandbox is entered in the store.\<close>

definition getOrCreateSandbox_create ::
  "thrown + Sandbox \<Rightarrow> string \<Rightarrow> world \<Rightarrow> (thrown + Sandbox) \<times> world" where
  "getOrCreateSandbox_create createOutcome chatSessionId w =
     (case createOutcome of
        Inl err \<Rightarrow>
          (Inl (Error (''Failed to create E2B sandbox: '' @
                  (case err of Error m \<Rightarrow> m | NonError \<Rightarrow> ''Unknown error''))), w)
      | Inr sb \<Rightarrow>
          (let w0 = w\<lparr>created := created w @ [sb]\<rparr>;
               (t1, w1) = dateNow w0;
               (t2, w2) = dateNow w1;
               entry = \<lparr>sandbox = sb, sandboxId = handle_sandboxId sb, createdAt = t1,
                        lastUsedAt = t2, executionCount = 1\<rparr>
           in (Inr sb, w2\<lparr>sandboxCache := AList.update chatSessionId entry (sandboxCache w2)\<rparr>)))"

definition getOrCreateSandbox ::
  "thrown + Sandbox \<Rightarrow> string \<Rightarrow> world \<Rightarrow> (thrown + Sandbox) \<times> world" where
  "getOrCreateSandbox createOutcome chatSessionId w =
     (case getOrCreateSandbox_cached chatSessionId w of
        (Some sb, w1) \<Rightarrow> (Inr sb, w1)
      | (None, w1) \<Rightarrow> getOrCreateSandbox_create createOutcome chatSessionId w1)"

text \<open>
  Two calls for the same session that overlap. Call A runs its first segment; when that
  finds a valid entry the call returns at once, otherwise it awaits the provider. Call B
  then runs its first segment in the same way. A call that awaits runs its second segment
  when the provider settles its creation: A's first when \<open>aSettlesFirst\<close>, B's first
  otherwise. A call that has returned from its first segment does nothing more. The
  result holds what each first segment found and what each call returned.
\<close>

definition overlappingCalls ::
  "bool \<Rightarrow> thrown + Sandbox \<Rightarrow> thrown + Sandbox \<Rightarrow> string \<Rightarrow> world \<Rightarrow>
     (Sandbox option \<times> Sandbox option \<times> (thrown + Sandbox) \<times> (thrown + Sandbox)) \<times> world" where
  "overlappingCalls aSettlesFirst outcomeA outcomeB chatSessionId w =
     (let (foundA, w1) = getOrCreateSandbox_cached chatSessionId w;
          (foundB, w2) = getOrCreateSandbox_cached chatSessionId w1;
          resumeA = (\<lambda>v. case foundA of
                           Some sb \<Rightarrow> (Inr sb, v)
                         | None \<Rightarrow> getOrCreateSandbox_create outcomeA chatSessionId v);
          resumeB = (\<lambda>v. case foundB of
                           Some sb \<Rightarrow> (Inr sb, v)
                         | None \<Rightarrow> getOrCreateSandbox_create outcomeB chatSessionId v)
      in if aSettlesFirst then
           (let (resultA, w3) = resumeA w2;
                (resultB, w4) = resumeB w3
            in ((foundA, foundB, resultA, resultB), w4))
         else
           (let (resultB, w3) = resumeB w2;
                (resultA, w4) = resumeA w3
            in ((foundA, foundB, resultA, resultB), w4)))"

section \<open>Execute\<close>

text \<open>The \<^verbatim>\<open>try\<close> block of \<^verbatim>\<open>executeCode\<close>. \<open>runCode\<close> is what the provider answers to
  \<^verbatim>\<open>sandbox.runCode(code)\<close>: an execution, or a rejection (a timeout among them).\<close>

definition executeCode_try ::
  "thrown + Sandbox \<Rightarrow> (Sandbox \<Rightarrow> string \<Rightarrow> thrown + Execution) \<Rightarrow> string \<Rightarrow> string \<Rightarrow> int \<Rightarrow>
     world \<Rightarrow> (thrown + ExecutionResult) \<times> world" where
  "executeCode_try createOutcome runCode chatSessionId code startTime w =
     (case getOrCreateSandbox createOutcome chatSessionId w of
        (Inl err, w1) \<Rightarrow> (Inl err, w1)
      | (Inr sb, w1) \<Rightarrow>
          (case runCode sb code of
             Inl err \<Rightarrow> (Inl err, w1)
           | Inr execution \<Rightarrow>
               (let (t, w2) = dateNow w1;
                    executionTimeMs' = t - startTime;
                    stdout' = join (logs_stdout execution) [LF] @ join (logs_stderr execution) [LF];
                    images' = extractImages (results execution) [];
                    error' = (case exec_error execution of
                                Some e \<Rightarrow> Some (formatError e) | None \<Rightarrow> None)
                in (Inr \<lparr>stdout = trim stdout', images = images', error = error',
                          executionTimeMs = executionTimeMs'\<rparr>, w2))))"

text \<open>\<^verbatim>\<open>executeCode\<close>: the start time, the \<^verbatim>\<open>try\<close> block and the \<^verbatim>\<open>catch\<close> clause.
  The result is a sum so that a throw of the function itself would be a value.\<close>

definition executeCode ::
  "thrown + Sandbox \<Rightarrow> (Sandbox \<Rightarrow> string \<Rightarrow> thrown + Execution) \<Rightarrow> string \<Rightarrow> string \<Rightarrow>
     world \<Rightarrow> (thrown + ExecutionResult) \<times> world" where
  "executeCode createOutcome runCode chatSessionId code w =
     (let (startTime, w0) = dateNow w in
      case executeCode_try createOutcome runCode chatSessionId code startTime w0 of
        (Inr r, w1) \<Rightarrow> (Inr r, w1)
      | (Inl err, w1) \<Rightarrow>
          (let (t, w2) = dateNow w1;
               executionTimeMs' = t - startTime
           in (Inr \<lparr>stdout = [], images = [],
                     error = Some (case err of Error m \<Rightarrow> m
                                   | NonError \<Rightarrow> ''Unknown execution error''),
                     executionTimeMs = executionTimeMs'\<rparr>, w2)))"

section \<open>Terminate\<close>

text \<open>\<^verbatim>\<open>terminateSandbox\<close>; \<open>killOutcome\<close> is what the provider answers to
  \<^verbatim>\<open>entry.sandbox.kill()\<close>. The request is logged whatever the answer.\<close>

definition terminateSandbox ::
  "thrown + bool \<Rightarrow> string \<Rightarrow> world \<Rightarrow> (thrown + unit) \<times> world" where
  "terminateSandbox killOutcome chatSessionId w =
     (case map_of (sandboxCache w) chatSessionId of
        None \<Rightarrow> (Inr (), w)
      | Some entry \<Rightarrow>
          (let w1 = w\<lparr>killRequests := killRequests w @ [sandbox entry]\<rparr> in
           case killOutcome of
             Inr _ \<Rightarrow> (Inr (), w1\<lparr>sandboxCache := AList.delete chatSessionId (sandboxCache w1)\<rparr>)
           | Inl err \<Rightarrow> (Inr (), w1\<lparr>sandboxCache := AList.delete chatSessionId (sandboxCache w1)\<rparr>)))"

section \<open>Statistics\<close>






section \<open>Notions of the specification\<close>

text \<open>The expiry policy in the specification's words: an entry is expired once it has
  been idle for more than 30 minutes or has lived for more than 60 minutes
  (in milliseconds).\<close>

definition expired :: "int \<Rightarrow> SandboxCacheEntry \<Rightarrow> bool" where
  "expired now e = (now - lastUsedAt e > 1800000 \<or> now - createdAt e > 3600000)"

text \<open>The store holds an entry for the session that is not expired at the clock's next
  reading.\<close>

definition hasValidEntry :: "world \<Rightarrow> string \<Rightarrow> bool" where
  "hasValidEntry w chatSessionId =
     (case map_of (sandboxCache w) chatSessionId of
        None \<Rightarrow> False
      | Some e \<Rightarrow> \<not> expired (clock w (ticks w)) e)"

text \<open>The state after construction: an empty \<^verbatim>\<open>Map\<close>, a provider that has seen no
  request, and a clock that starts at \<open>t\<close> and advances by one millisecond per reading.\<close>

definition initialWorld :: "int \<Rightarrow> world" where
  "initialWorld t =
     \<lparr>sandboxCache = [], clock = (\<lambda>n. t + int n), ticks = 0, created = [], killRequests = []\<rparr>"

text \<open>What a call returns when its creation request has been answered, and the
  sandboxes that the answer has created.\<close>

definition creationResult :: "thrown + Sandbox \<Rightarrow> thrown + Sandbox" where
  "creationResult outcome =
     (case outcome of
        Inl err \<Rightarrow> Inl (Error (''Failed to create E2B sandbox: '' @
                          (case err of Error m \<Rightarrow> m | NonError \<Rightarrow> ''Unknown error'')))
      | Inr sb \<Rightarrow> Inr sb)"

definition served :: "thrown + Sandbox \<Rightarrow> Sandbox list" where
  "served outcome = (case outcome of Inl err \<Rightarrow> [] | Inr sb \<Rightarrow> [sb])"




text \<open>The image a single result contributes, if any: png before jpeg.\<close>

definition imageOf :: "Result \<Rightarrow> Image option" where
  "imageOf r =
     (if truthy (png r) then Some \<lparr>format = Png, base64 = the (png r)\<rparr>
      else if truthy (jpeg r) then Some \<lparr>format = Jpeg, base64 = the (jpeg r)\<rparr>
      else None)"

text \<open>The fields of an interpreter error that are present, in the order name, value,
  traceback.\<close>

definition presentFields :: "ExecutionError \<Rightarrow> string list" where
  "presentFields e = map the (filter truthy [err_name e, err_value e, err_traceback e])"

text \<open>The lines of a text: the pieces between its line feeds.\<close>

fun splitLines :: "string \<Rightarrow> string list" where
  "splitLines [] = [[]]"
| "splitLines (c # cs) =
     (if c = LF then [] # splitLines cs
      else (case splitLines cs of [] \<Rightarrow> [[c]] | l # ls \<Rightarrow> (c # l) # ls))"

text \<open>A state with one session \<open>''s1''\<close>, whose sandbox \<open>A\<close> was created and last
  used at time \<open>t0\<close>, and a clock that starts at \<open>now\<close>.\<close>

definition oneSessionWorld :: "int \<Rightarrow> int \<Rightarrow> world" where
  "oneSessionWorld t0 now =
     \<lparr>sandboxCache = [(''s1'', \<lparr>sandbox = Sandbox ''A'', sandboxId = ''A'', createdAt = t0,
                                lastUsedAt = t0, executionCount = 1\<rparr>)],
      clock = (\<lambda>n. now + int n), ticks = 0, created = [Sandbox ''A''], killRequests = []\<rparr>"




section \<open>Basic facts\<close>

lemma extractImages_acc: "extractImages rs imgs = imgs @ List.map_filter imageOf rs"
  by (induction rs arbitrary: imgs) (simp_all add: imageOf_def List.map_filter_simps)

lemma join_fuse: "join (xs @ [x]) sep @ join (y # ys) sep = join (xs @ [x @ y] @ ys) sep"
proof (induction xs)
  case Nil
  show ?case by (cases ys) simp_all
next
  case (Cons a xs)
  then show ?case by (cases xs) simp_all
qed

lemma splitLines_no_LF: "LF \<notin> set x \<Longrightarrow> splitLines x = [x]"
  by (induction x) auto

lemma splitLines_append: "LF \<notin> set x \<Longrightarrow> splitLines (x @ LF # rest) = x # splitLines rest"
  by (induction x) auto

lemma splitLines_join:
  "xs \<noteq> [] \<Longrightarrow> \<forall>x\<in>set xs. LF \<notin> set x \<Longrightarrow> splitLines (join xs [LF]) = xs"
proof (induction xs "[LF]" rule: join.induct)
  case 1
  then show ?case by simp
next
  case (2 x)
  then show ?case by (simp add: splitLines_no_LF)
next
  case (3 x y ys)
  then show ?case by (simp add: splitLines_append)
qed

lemma formatError_join: "formatError e = join (presentFields e) [LF]"
  by (simp add: formatError_def presentFields_def Let_def)

text \<open>The policy of the code is the policy of the specification; evaluating it reads
  the clock once.\<close>

lemma isSessionValid_expired:
  "isSessionValid e w = (\<not> expired (clock w (ticks w)) e, w\<lparr>ticks := Suc (ticks w)\<rparr>)"
  by (simp add: isSessionValid_def dateNow_def expired_def SESSION_IDLE_TIMEOUT_def
      SESSION_MAX_LIFETIME_def Let_def)

lemma cached_absent:
  "map_of (sandboxCache w) sid = None \<Longrightarrow> getOrCreateSandbox_cached sid w = (None, w)"
  by (simp add: getOrCreateSandbox_cached_def)

lemma cached_expired:
  "map_of (sandboxCache w) sid = Some e \<Longrightarrow> expired (clock w (ticks w)) e \<Longrightarrow>
   getOrCreateSandbox_cached sid w = (None, w\<lparr>ticks := Suc (ticks w)\<rparr>)"
  by (simp add: getOrCreateSandbox_cached_def isSessionValid_expired)

lemma cached_valid:
  "map_of (sandboxCache w) sid = Some e \<Longrightarrow> \<not> expired (clock w (ticks w)) e \<Longrightarrow>
   getOrCreateSandbox_cached sid w =
     (Some (sandbox e),
      w\<lparr>ticks := Suc (Suc (ticks w)),
        sandboxCache := AList.update sid
          (e\<lparr>lastUsedAt := clock w (Suc (ticks w)), executionCount := Suc (executionCount e)\<rparr>)
          (sandboxCache w)\<rparr>)"
  by (simp add: getOrCreateSandbox_cached_def isSessionValid_expired dateNow_def Let_def)

lemma create_ok:
  "getOrCreateSandbox_create (Inr sb) sid w =
     (Inr sb,
      w\<lparr>created := created w @ [sb], ticks := Suc (Suc (ticks w)),
        sandboxCache := AList.update sid
          \<lparr>sandbox = sb, sandboxId = handle_sandboxId sb, createdAt = clock w (ticks w),
            lastUsedAt = clock w (Suc (ticks w)), executionCount = 1\<rparr> (sandboxCache w)\<rparr>)"
  by (simp add: getOrCreateSandbox_create_def dateNow_def Let_def)

lemma create_fail:
  "getOrCreateSandbox_create (Inl err) sid w =
     (Inl (Error (''Failed to create E2B sandbox: '' @
        (case err of Error m \<Rightarrow> m | NonError \<Rightarrow> ''Unknown error''))), w)"
  by (simp add: getOrCreateSandbox_create_def)

lemma cached_found_iff:
  "fst (getOrCreateSandbox_cached sid w) \<noteq> None \<longleftrightarrow> hasValidEntry w sid"
  by (auto simp: hasValidEntry_def cached_absent cached_expired cached_valid split: option.splits)

lemma executeCode_success:
  assumes "getOrCreateSandbox createOutcome chatSessionId (snd (dateNow w)) = (Inr sb, w1)"
    and "runCode sb code = Inr execution"
  shows "executeCode createOutcome runCode chatSessionId code w =
           (Inr \<lparr>stdout = trim (join (logs_stdout execution) [LF] @ join (logs_stderr execution) [LF]),
                 images = extractImages (results execution) [],
                 error = map_option formatError (exec_error execution),
                 executionTimeMs = clock w1 (ticks w1) - clock w (ticks w)\<rparr>,
            w1\<lparr>ticks := Suc (ticks w1)\<rparr>)"
  using assms
  by (simp add: executeCode_def executeCode_try_def dateNow_def Let_def split: option.splits)

lemma length_map_filter: "length (List.map_filter f xs) = length (filter (\<lambda>x. f x \<noteq> None) xs)"
  by (induction xs) (auto simp: List.map_filter_simps split: option.splits)

lemma imageOf_None_iff: "imageOf r \<noteq> None \<longleftrightarrow> truthy (png r) \<or> truthy (jpeg r)"
  by (simp add: imageOf_def)

section \<open>Formatting an interpreter error\<close>

text \<open>
  Claim C8. For every interpreter-level error object, \<^verbatim>\<open>formatError\<close> yields one string
  made of the name, the value and the traceback, in that order, each present field on a
  line of its own and nothing for an absent one. A field counts as present when the
  source's test \<^verbatim>\<open>if (error.name)\<close> passes: it is defined and not the empty string.
  The string is the present fields joined by line feeds; with all three present it is
  name, line feed, value, line feed, traceback; when no present field has a line feed
  inside, the lines of the string are exactly the present fields, so no blank line stands
  for a missing field; and with no field present the string is empty.
\<close>

theorem formatError_lines:
  "formatError e = join (presentFields e) [LF]
   \<and> (truthy (err_name e) \<and> truthy (err_value e) \<and> truthy (err_traceback e) \<longrightarrow>
        formatError e = the (err_name e) @ [LF] @ the (err_value e) @ [LF] @ the (err_traceback e))
   \<and> (presentFields e \<noteq> [] \<and> (\<forall>f\<in>set (presentFields e). LF \<notin> set f) \<longrightarrow>
        splitLines (formatError e) = presentFields e)
   \<and> (presentFields e = [] \<longrightarrow> formatError e = [])"
proof -
  have eq: "formatError e = join (presentFields e) [LF]"
    by (rule formatError_join)
  have all: "truthy (err_name e) \<and> truthy (err_value e) \<and> truthy (err_traceback e) \<longrightarrow>
      formatError e = the (err_name e) @ [LF] @ the (err_value e) @ [LF] @ the (err_traceback e)"
    by (simp add: formatError_def)
  have lines: "presentFields e \<noteq> [] \<and> (\<forall>f\<in>set (presentFields e). LF \<notin> set f) \<longrightarrow>
      splitLines (formatError e) = presentFields e"
    unfolding eq using splitLines_join by blast
  have none: "presentFields e = [] \<longrightarrow> formatError e = []"
    by (simp add: eq)
  from eq all lines none show ?thesis by blast
qed

theorem formatError_lines_witness:
  "formatError \<lparr>err_name = Some ''ValueError'', err_value = Some ''bad input'',
                 err_traceback = Some ''line 3''\<rparr>
     = ''ValueError'' @ [LF] @ ''bad input'' @ [LF] @ ''line 3''
   \<and> splitLines (formatError \<lparr>err_name = Some ''ValueError'', err_value = Some ''bad input'',
                 err_traceback = Some ''line 3''\<rparr>) = [''ValueError'', ''bad input'', ''line 3'']
   \<and> splitLines (formatError \<lparr>err_name = Some ''ValueError'', err_value = None,
                 err_traceback = Some ''line 3''\<rparr>) = [''ValueError'', ''line 3'']
   \<and> formatError \<lparr>err_name = None, err_value = None, err_traceback = None\<rparr> = []"
  using formatError_lines [of "\<lparr>err_name = Some ''ValueError'', err_value = Some ''bad input'',
                 err_traceback = Some ''line 3''\<rparr>"]
    formatError_lines [of "\<lparr>err_name = Some ''ValueError'', err_value = None,
                 err_traceback = Some ''line 3''\<rparr>"]
    formatError_lines [of "\<lparr>err_name = None, err_value = None, err_traceback = None\<rparr>"]
  by (simp add: presentFields_def LF_def)

section \<open>Images and merged output of a successful run\<close>

text \<open>
  Claim C9. When the sandbox is resolved and the run returns an execution, the
  \<^verbatim>\<open>images\<close> of the result hold one entry for each result that carries a png or a jpeg
  payload (a defined, non-empty string), in the order of the results: a result with a png
  payload gives a png image whether or not it has a jpeg payload too, a result with only
  a jpeg payload gives a jpeg image, and a result with neither gives nothing.
\<close>

theorem executeCode_images:
  assumes "getOrCreateSandbox createOutcome chatSessionId (snd (dateNow w)) = (Inr sb, w1)"
    and "runCode sb code = Inr execution"
  shows "\<exists>r. fst (executeCode createOutcome runCode chatSessionId code w) = Inr r
     \<and> images r = List.map_filter imageOf (results execution)
     \<and> length (images r) =
         length (filter (\<lambda>x. truthy (png x) \<or> truthy (jpeg x)) (results execution))
     \<and> (\<forall>x. truthy (png x) \<longrightarrow> imageOf x = Some \<lparr>format = Png, base64 = the (png x)\<rparr>)
     \<and> (\<forall>x. \<not> truthy (png x) \<and> truthy (jpeg x) \<longrightarrow>
            imageOf x = Some \<lparr>format = Jpeg, base64 = the (jpeg x)\<rparr>)
     \<and> (\<forall>x. \<not> truthy (png x) \<and> \<not> truthy (jpeg x) \<longrightarrow> imageOf x = None)"
proof -
  let ?r = "\<lparr>stdout = trim (join (logs_stdout execution) [LF] @ join (logs_stderr execution) [LF]),
             images = extractImages (results execution) [],
             error = map_option formatError (exec_error execution),
             executionTimeMs = clock w1 (ticks w1) - clock w (ticks w)\<rparr>"
  have run: "fst (executeCode createOutcome runCode chatSessionId code w) = Inr ?r"
    by (simp add: executeCode_success [where runCode = runCode and code = code, OF assms])
  have imgs: "images ?r = List.map_filter imageOf (results execution)"
    by (simp add: extractImages_acc)
  have len: "length (images ?r) =
      length (filter (\<lambda>x. truthy (png x) \<or> truthy (jpeg x)) (results execution))"
    unfolding imgs length_map_filter imageOf_None_iff ..
  have cls: "(\<forall>x. truthy (png x) \<longrightarrow> imageOf x = Some \<lparr>format = Png, base64 = the (png x)\<rparr>)
     \<and> (\<forall>x. \<not> truthy (png x) \<and> truthy (jpeg x) \<longrightarrow>
            imageOf x = Some \<lparr>format = Jpeg, base64 = the (jpeg x)\<rparr>)
     \<and> (\<forall>x. \<not> truthy (png x) \<and> \<not> truthy (jpeg x) \<longrightarrow> imageOf x = None)"
    by (simp add: imageOf_def)
  from run imgs len cls show ?thesis by blast
qed

theorem executeCode_images_witness:
  "\<exists>r. fst (executeCode (Inr (Sandbox ''sbx''))
            (\<lambda>sb code. Inr \<lparr>logs_stdout = [], logs_stderr = [],
               results = [\<lparr>png = Some ''P1'', jpeg = Some ''J1''\<rparr>,
                          \<lparr>png = None, jpeg = Some ''J2''\<rparr>,
                          \<lparr>png = None, jpeg = None\<rparr>,
                          \<lparr>png = Some ''P3'', jpeg = None\<rparr>],
               exec_error = None\<rparr>)
            ''s1'' ''plot()'' (initialWorld 0)) = Inr r
     \<and> images r = [\<lparr>format = Png, base64 = ''P1''\<rparr>, \<lparr>format = Jpeg, base64 = ''J2''\<rparr>,
                    \<lparr>format = Png, base64 = ''P3''\<rparr>]"
proof -
  have res: "getOrCreateSandbox (Inr (Sandbox ''sbx'')) ''s1'' (snd (dateNow (initialWorld 0)))
      = (Inr (Sandbox ''sbx''),
         snd (getOrCreateSandbox (Inr (Sandbox ''sbx'')) ''s1'' (snd (dateNow (initialWorld 0)))))"
    by (simp add: getOrCreateSandbox_def getOrCreateSandbox_cached_def create_ok dateNow_def
        initialWorld_def)
  show ?thesis
    using executeCode_images [OF res, of "\<lambda>sb code. Inr \<lparr>logs_stdout = [], logs_stderr = [],
               results = [\<lparr>png = Some ''P1'', jpeg = Some ''J1''\<rparr>,
                          \<lparr>png = None, jpeg = Some ''J2''\<rparr>,
                          \<lparr>png = None, jpeg = None\<rparr>,
                          \<lparr>png = Some ''P3'', jpeg = None\<rparr>],
               exec_error = None\<rparr>" "''plot()''"]
    by (auto simp: List.map_filter_simps imageOf_def)
qed

text \<open>
  Claim C10. When the sandbox is resolved and the run returns an execution with stdout
  lines \<open>S\<close> and stderr lines \<open>E\<close>, the \<^verbatim>\<open>stdout\<close> of the result is the trimmed
  concatenation of \<open>S\<close> joined by line feeds and \<open>E\<close> joined by line feeds. Nothing
  separates the two blocks: when neither is empty, the text before trimming is the join
  of the lines of \<open>S\<close> but the last, then the last line of \<open>S\<close> fused with the first
  line of \<open>E\<close>, then the remaining lines of \<open>E\<close>.
\<close>

theorem executeCode_stdout:
  assumes "getOrCreateSandbox createOutcome chatSessionId (snd (dateNow w)) = (Inr sb, w1)"
    and "runCode sb code = Inr execution"
  shows "\<exists>r. fst (executeCode createOutcome runCode chatSessionId code w) = Inr r
     \<and> stdout r = trim (join (logs_stdout execution) [LF] @ join (logs_stderr execution) [LF])
     \<and> (logs_stdout execution \<noteq> [] \<and> logs_stderr execution \<noteq> [] \<longrightarrow>
          stdout r = trim (join (butlast (logs_stdout execution)
                             @ [last (logs_stdout execution) @ hd (logs_stderr execution)]
                             @ tl (logs_stderr execution)) [LF]))"
proof -
  let ?S = "logs_stdout execution" and ?E = "logs_stderr execution"
  let ?r = "\<lparr>stdout = trim (join ?S [LF] @ join ?E [LF]),
             images = extractImages (results execution) [],
             error = map_option formatError (exec_error execution),
             executionTimeMs = clock w1 (ticks w1) - clock w (ticks w)\<rparr>"
  have run: "fst (executeCode createOutcome runCode chatSessionId code w) = Inr ?r"
    by (simp add: executeCode_success [where runCode = runCode and code = code, OF assms])
  have fused: "join ?S [LF] @ join ?E [LF] = join (butlast ?S @ [last ?S @ hd ?E] @ tl ?E) [LF]"
    if "?S \<noteq> []" and "?E \<noteq> []"
  proof -
    have "join (butlast ?S @ [last ?S]) [LF] @ join (hd ?E # tl ?E) [LF]
        = join (butlast ?S @ [last ?S @ hd ?E] @ tl ?E) [LF]"
      by (rule join_fuse)
    with that show ?thesis by simp
  qed
  have "stdout ?r = trim (join ?S [LF] @ join ?E [LF])"
    by simp
  moreover have "?S \<noteq> [] \<and> ?E \<noteq> [] \<longrightarrow>
      stdout ?r = trim (join (butlast ?S @ [last ?S @ hd ?E] @ tl ?E) [LF])"
    using fused by simp
  ultimately show ?thesis using run by blast
qed

theorem executeCode_stdout_witness:
  "\<exists>r. fst (executeCode (Inr (Sandbox ''sbx''))
            (\<lambda>sb code. Inr \<lparr>logs_stdout = ['' out1'', ''out2''], logs_stderr = [''warn1'', ''warn2 ''],
               results = [], exec_error = None\<rparr>)
            ''s1'' ''print()'' (initialWorld 0)) = Inr r
     \<and> stdout r = ''out1'' @ [LF] @ ''out2warn1'' @ [LF] @ ''warn2''"
proof -
  have res: "getOrCreateSandbox (Inr (Sandbox ''sbx'')) ''s1'' (snd (dateNow (initialWorld 0)))
      = (Inr (Sandbox ''sbx''),
         snd (getOrCreateSandbox (Inr (Sandbox ''sbx'')) ''s1'' (snd (dateNow (initialWorld 0)))))"
    by (simp add: getOrCreateSandbox_def getOrCreateSandbox_cached_def create_ok dateNow_def
        initialWorld_def)
  show ?thesis
    using executeCode_stdout [OF res, of "\<lambda>sb code. Inr \<lparr>logs_stdout = ['' out1'', ''out2''],
               logs_stderr = [''warn1'', ''warn2 ''], results = [], exec_error = None\<rparr>" "''print()''"]
    by (auto simp: trim_def isWhiteSpace_def LF_def)
qed

section \<open>Resolving a session's sandbox\<close>

lemma getOrCreateSandbox_reuse:
  assumes "map_of (sandboxCache w) sid = Some e" and "\<not> expired (clock w (ticks w)) e"
  shows "getOrCreateSandbox createOutcome sid w =
     (Inr (sandbox e),
      w\<lparr>ticks := Suc (Suc (ticks w)),
        sandboxCache := AList.update sid
          (e\<lparr>lastUsedAt := clock w (Suc (ticks w)), executionCount := Suc (executionCount e)\<rparr>)
          (sandboxCache w)\<rparr>)"
  by (simp add: getOrCreateSandbox_def cached_valid [OF assms])

lemma getOrCreateSandbox_fresh:
  assumes "\<not> hasValidEntry w sid"
  shows "getOrCreateSandbox createOutcome sid w =
     getOrCreateSandbox_create createOutcome sid
       (w\<lparr>ticks := (if map_of (sandboxCache w) sid = None then ticks w else Suc (ticks w))\<rparr>)"
proof (cases "map_of (sandboxCache w) sid")
  case None
  then show ?thesis by (simp add: getOrCreateSandbox_def cached_absent)
next
  case (Some e)
  with assms have "expired (clock w (ticks w)) e" by (simp add: hasValidEntry_def)
  with Some show ?thesis by (simp add: getOrCreateSandbox_def cached_expired)
qed

text \<open>
  Claim C2. If the store holds an entry for the session that has been idle for at most
  30 minutes and has lived for at most 60 minutes at the clock reading of the validity
  check, \<^verbatim>\<open>getOrCreateSandbox\<close> returns the handle of that entry, sets its
  \<^verbatim>\<open>lastUsedAt\<close> to the clock reading taken right after the check, adds one to its
  \<^verbatim>\<open>executionCount\<close>, leaves every other entry and the set of keys as they were, and
  creates no sandbox. Otherwise, when the provider creates a sandbox, the call returns the
  new handle, one more sandbox has been created, and the store maps the session to a
  fresh entry for that handle with \<^verbatim>\<open>executionCount = 1\<close>, stamped with two successive
  clock readings taken during the call; the entry takes the place of an earlier entry
  under the same key, or is added when there was none.
\<close>

theorem getOrCreateSandbox_contract:
  "(\<forall>e. map_of (sandboxCache w) sid = Some e
        \<and> clock w (ticks w) - lastUsedAt e \<le> 30 * 60 * 1000
        \<and> clock w (ticks w) - createdAt e \<le> 60 * 60 * 1000 \<longrightarrow>
      (\<exists>w'. getOrCreateSandbox createOutcome sid w = (Inr (sandbox e), w')
         \<and> map_of (sandboxCache w') = (map_of (sandboxCache w))
              (sid \<mapsto> e\<lparr>lastUsedAt := clock w (Suc (ticks w)),
                         executionCount := executionCount e + 1\<rparr>)
         \<and> map fst (sandboxCache w') = map fst (sandboxCache w)
         \<and> created w' = created w))
   \<and> (\<not> (\<exists>e. map_of (sandboxCache w) sid = Some e
        \<and> clock w (ticks w) - lastUsedAt e \<le> 30 * 60 * 1000
        \<and> clock w (ticks w) - createdAt e \<le> 60 * 60 * 1000) \<longrightarrow>
      (\<exists>w' k. getOrCreateSandbox (Inr sb) sid w = (Inr sb, w')
         \<and> created w' = created w @ [sb]
         \<and> ticks w \<le> k
         \<and> map_of (sandboxCache w') = (map_of (sandboxCache w))
              (sid \<mapsto> \<lparr>sandbox = sb, sandboxId = handle_sandboxId sb, createdAt = clock w k,
                         lastUsedAt = clock w (Suc k), executionCount = 1\<rparr>)
         \<and> map fst (sandboxCache w') =
              (if sid \<in> set (map fst (sandboxCache w)) then map fst (sandboxCache w)
               else map fst (sandboxCache w) @ [sid])))"
proof (intro conjI allI impI)
  fix e
  assume a: "map_of (sandboxCache w) sid = Some e
        \<and> clock w (ticks w) - lastUsedAt e \<le> 30 * 60 * 1000
        \<and> clock w (ticks w) - createdAt e \<le> 60 * 60 * 1000"
  then have look: "map_of (sandboxCache w) sid = Some e"
    and valid: "\<not> expired (clock w (ticks w)) e"
    by (simp_all add: expired_def)
  have key: "sid \<in> fst ` set (sandboxCache w)"
    using look by (force dest: map_of_SomeD)
  show "\<exists>w'. getOrCreateSandbox createOutcome sid w = (Inr (sandbox e), w')
         \<and> map_of (sandboxCache w') = (map_of (sandboxCache w))
              (sid \<mapsto> e\<lparr>lastUsedAt := clock w (Suc (ticks w)),
                         executionCount := executionCount e + 1\<rparr>)
         \<and> map fst (sandboxCache w') = map fst (sandboxCache w)
         \<and> created w' = created w"
    unfolding getOrCreateSandbox_reuse [OF look valid]
    using key by (simp add: update_conv' update_keys)
next
  assume "\<not> (\<exists>e. map_of (sandboxCache w) sid = Some e
        \<and> clock w (ticks w) - lastUsedAt e \<le> 30 * 60 * 1000
        \<and> clock w (ticks w) - createdAt e \<le> 60 * 60 * 1000)"
  then have inv: "\<not> hasValidEntry w sid"
    by (auto simp: hasValidEntry_def expired_def split: option.splits)
  let ?k = "if map_of (sandboxCache w) sid = None then ticks w else Suc (ticks w)"
  let ?w' = "snd (getOrCreateSandbox (Inr sb) sid w)"
  have run: "getOrCreateSandbox (Inr sb) sid w = (Inr sb, ?w')"
    by (simp add: getOrCreateSandbox_fresh [OF inv] create_ok)
  have "created ?w' = created w @ [sb]"
    by (simp add: getOrCreateSandbox_fresh [OF inv] create_ok)
  moreover have "ticks w \<le> ?k" by simp
  moreover have "map_of (sandboxCache ?w') = (map_of (sandboxCache w))
              (sid \<mapsto> \<lparr>sandbox = sb, sandboxId = handle_sandboxId sb, createdAt = clock w ?k,
                         lastUsedAt = clock w (Suc ?k), executionCount = 1\<rparr>)"
    by (simp add: getOrCreateSandbox_fresh [OF inv] create_ok update_conv')
  moreover have "map fst (sandboxCache ?w') =
              (if sid \<in> set (map fst (sandboxCache w)) then map fst (sandboxCache w)
               else map fst (sandboxCache w) @ [sid])"
    by (simp add: getOrCreateSandbox_fresh [OF inv] create_ok update_keys)
  ultimately show "\<exists>w' k. getOrCreateSandbox (Inr sb) sid w = (Inr sb, w')
         \<and> created w' = created w @ [sb]
         \<and> ticks w \<le> k
         \<and> map_of (sandboxCache w') = (map_of (sandboxCache w))
              (sid \<mapsto> \<lparr>sandbox = sb, sandboxId = handle_sandboxId sb, createdAt = clock w k,
                         lastUsedAt = clock w (Suc k), executionCount = 1\<rparr>)
         \<and> map fst (sandboxCache w') =
              (if sid \<in> set (map fst (sandboxCache w)) then map fst (sandboxCache w)
               else map fst (sandboxCache w) @ [sid])"
    using run by blast
qed

theorem getOrCreateSandbox_contract_witness:
  "(\<exists>w'. getOrCreateSandbox (Inl NonError) ''s1'' (oneSessionWorld 0 1000) = (Inr (Sandbox ''A''), w')
      \<and> map_of (sandboxCache w') ''s1'' =
          Some \<lparr>sandbox = Sandbox ''A'', sandboxId = ''A'', createdAt = 0, lastUsedAt = 1001,
                executionCount = 2\<rparr>
      \<and> map fst (sandboxCache w') = [''s1'']
      \<and> created w' = [Sandbox ''A''])
   \<and> (\<exists>w'. getOrCreateSandbox (Inr (Sandbox ''B'')) ''s1'' (oneSessionWorld 0 1800001)
          = (Inr (Sandbox ''B''), w')
      \<and> created w' = [Sandbox ''A'', Sandbox ''B'']
      \<and> map_option sandbox (map_of (sandboxCache w') ''s1'') = Some (Sandbox ''B'')
      \<and> map_option executionCount (map_of (sandboxCache w') ''s1'') = Some 1
      \<and> map fst (sandboxCache w') = [''s1''])"
proof -
  have reuse: "map_of (sandboxCache (oneSessionWorld 0 1000)) ''s1'' =
        Some \<lparr>sandbox = Sandbox ''A'', sandboxId = ''A'', createdAt = 0, lastUsedAt = 0,
              executionCount = 1\<rparr>
      \<and> clock (oneSessionWorld 0 1000) (ticks (oneSessionWorld 0 1000))
          - lastUsedAt \<lparr>sandbox = Sandbox ''A'', sandboxId = ''A'', createdAt = 0, lastUsedAt = 0,
              executionCount = 1\<rparr> \<le> 30 * 60 * 1000
      \<and> clock (oneSessionWorld 0 1000) (ticks (oneSessionWorld 0 1000))
          - createdAt \<lparr>sandbox = Sandbox ''A'', sandboxId = ''A'', createdAt = 0, lastUsedAt = 0,
              executionCount = 1\<rparr> \<le> 60 * 60 * 1000"
    by (simp add: oneSessionWorld_def)
  have stale: "\<not> (\<exists>e. map_of (sandboxCache (oneSessionWorld 0 1800001)) ''s1'' = Some e
        \<and> clock (oneSessionWorld 0 1800001) (ticks (oneSessionWorld 0 1800001)) - lastUsedAt e
            \<le> 30 * 60 * 1000
        \<and> clock (oneSessionWorld 0 1800001) (ticks (oneSessionWorld 0 1800001)) - createdAt e
            \<le> 60 * 60 * 1000)"
    by (simp add: oneSessionWorld_def)
  note first = getOrCreateSandbox_contract [of "oneSessionWorld 0 1000" "''s1''" "Inl NonError",
      THEN conjunct1, rule_format, OF reuse]
  note second = getOrCreateSandbox_contract [of "oneSessionWorld 0 1800001" "''s1''" _ "Sandbox ''B''",
      THEN conjunct2, rule_format, OF stale]
  let ?E = "\<lparr>sandbox = Sandbox ''A'', sandboxId = ''A'', createdAt = 0, lastUsedAt = 0,
              executionCount = 1\<rparr>"
  from first obtain w1 where
    r1: "getOrCreateSandbox (Inl NonError) ''s1'' (oneSessionWorld 0 1000) = (Inr (sandbox ?E), w1)"
    and m1: "map_of (sandboxCache w1) = (map_of (sandboxCache (oneSessionWorld 0 1000)))
              (''s1'' \<mapsto> ?E\<lparr>lastUsedAt := clock (oneSessionWorld 0 1000)
                                    (Suc (ticks (oneSessionWorld 0 1000))),
                         executionCount := executionCount ?E + 1\<rparr>)"
    and k1: "map fst (sandboxCache w1) = map fst (sandboxCache (oneSessionWorld 0 1000))"
    and c1: "created w1 = created (oneSessionWorld 0 1000)"
    by blast
  have f1: "getOrCreateSandbox (Inl NonError) ''s1'' (oneSessionWorld 0 1000) = (Inr (Sandbox ''A''), w1)
      \<and> map_of (sandboxCache w1) ''s1'' =
          Some \<lparr>sandbox = Sandbox ''A'', sandboxId = ''A'', createdAt = 0, lastUsedAt = 1001,
                executionCount = 2\<rparr>
      \<and> map fst (sandboxCache w1) = [''s1'']
      \<and> created w1 = [Sandbox ''A'']"
    using r1 k1 c1 by (simp add: m1) (simp add: oneSessionWorld_def)
  from second obtain w2 k where
    r2: "getOrCreateSandbox (Inr (Sandbox ''B'')) ''s1'' (oneSessionWorld 0 1800001)
          = (Inr (Sandbox ''B''), w2)"
    and c2: "created w2 = created (oneSessionWorld 0 1800001) @ [Sandbox ''B'']"
    and m2: "map_of (sandboxCache w2) = (map_of (sandboxCache (oneSessionWorld 0 1800001)))
              (''s1'' \<mapsto> \<lparr>sandbox = Sandbox ''B'', sandboxId = handle_sandboxId (Sandbox ''B''),
                         createdAt = clock (oneSessionWorld 0 1800001) k,
                         lastUsedAt = clock (oneSessionWorld 0 1800001) (Suc k),
                         executionCount = 1\<rparr>)"
    and k2: "map fst (sandboxCache w2) =
              (if ''s1'' \<in> set (map fst (sandboxCache (oneSessionWorld 0 1800001)))
               then map fst (sandboxCache (oneSessionWorld 0 1800001))
               else map fst (sandboxCache (oneSessionWorld 0 1800001)) @ [''s1''])"
    by blast
  have f2: "getOrCreateSandbox (Inr (Sandbox ''B'')) ''s1'' (oneSessionWorld 0 1800001)
          = (Inr (Sandbox ''B''), w2)
      \<and> created w2 = [Sandbox ''A'', Sandbox ''B'']
      \<and> map_option sandbox (map_of (sandboxCache w2) ''s1'') = Some (Sandbox ''B'')
      \<and> map_option executionCount (map_of (sandboxCache w2) ''s1'') = Some 1
      \<and> map fst (sandboxCache w2) = [''s1'']"
    using r2 c2 k2 by (simp add: m2) (simp add: oneSessionWorld_def)
  show ?thesis
  proof (rule conjI)
    show "\<exists>w'. getOrCreateSandbox (Inl NonError) ''s1'' (oneSessionWorld 0 1000)
          = (Inr (Sandbox ''A''), w')
      \<and> map_of (sandboxCache w') ''s1'' =
          Some \<lparr>sandbox = Sandbox ''A'', sandboxId = ''A'', createdAt = 0, lastUsedAt = 1001,
                executionCount = 2\<rparr>
      \<and> map fst (sandboxCache w') = [''s1'']
      \<and> created w' = [Sandbox ''A'']"
      by (rule exI [of _ w1]) (rule f1)
    show "\<exists>w'. getOrCreateSandbox (Inr (Sandbox ''B'')) ''s1'' (oneSessionWorld 0 1800001)
          = (Inr (Sandbox ''B''), w')
      \<and> created w' = [Sandbox ''A'', Sandbox ''B'']
      \<and> map_option sandbox (map_of (sandboxCache w') ''s1'') = Some (Sandbox ''B'')
      \<and> map_option executionCount (map_of (sandboxCache w') ''s1'') = Some 1
      \<and> map fst (sandboxCache w') = [''s1'']"
      by (rule exI [of _ w2]) (rule f2)
  qed
qed

text \<open>
  Claim C6. When \<^verbatim>\<open>getOrCreateSandbox\<close> turns to the provider (the store holds no valid
  entry for the session) and the provider fails to create a sandbox, the call throws one
  error, whose message is \<^verbatim>\<open>Failed to create E2B sandbox: \<close> followed by the provider's
  message (or \<^verbatim>\<open>Unknown error\<close> when what was thrown is not an \<^verbatim>\<open>Error\<close>), and the
  store after the call is the store before it; no sandbox has been created and no release
  requested.
\<close>

theorem getOrCreateSandbox_creation_failure:
  assumes "\<not> hasValidEntry w sid"
  shows "fst (getOrCreateSandbox (Inl err) sid w) =
           Inl (Error (''Failed to create E2B sandbox: '' @
                  (case err of Error m \<Rightarrow> m | NonError \<Rightarrow> ''Unknown error'')))
     \<and> sandboxCache (snd (getOrCreateSandbox (Inl err) sid w)) = sandboxCache w
     \<and> created (snd (getOrCreateSandbox (Inl err) sid w)) = created w
     \<and> killRequests (snd (getOrCreateSandbox (Inl err) sid w)) = killRequests w"
  by (simp add: getOrCreateSandbox_fresh [OF assms] create_fail)

theorem getOrCreateSandbox_creation_failure_witness:
  "\<not> hasValidEntry (oneSessionWorld 0 3600001) ''s1''
   \<and> fst (getOrCreateSandbox (Inl (Error ''quota exceeded'')) ''s1'' (oneSessionWorld 0 3600001)) =
        Inl (Error ''Failed to create E2B sandbox: quota exceeded'')
   \<and> sandboxCache (snd (getOrCreateSandbox (Inl (Error ''quota exceeded'')) ''s1''
        (oneSessionWorld 0 3600001))) = sandboxCache (oneSessionWorld 0 3600001)
   \<and> fst (getOrCreateSandbox (Inl NonError) ''s2'' (oneSessionWorld 0 1000)) =
        Inl (Error ''Failed to create E2B sandbox: Unknown error'')
   \<and> sandboxCache (snd (getOrCreateSandbox (Inl NonError) ''s2'' (oneSessionWorld 0 1000))) =
        sandboxCache (oneSessionWorld 0 1000)"
proof -
  have stale: "\<not> hasValidEntry (oneSessionWorld 0 3600001) ''s1''"
    by (simp add: hasValidEntry_def oneSessionWorld_def expired_def)
  have absent: "\<not> hasValidEntry (oneSessionWorld 0 1000) ''s2''"
    by (simp add: hasValidEntry_def oneSessionWorld_def)
  show ?thesis
    using stale getOrCreateSandbox_creation_failure [OF stale, of "Error ''quota exceeded''"]
      getOrCreateSandbox_creation_failure [OF absent, of NonError]
    by simp
qed

section \<open>Termination\<close>

text \<open>
  Claim C5. \<^verbatim>\<open>terminateSandbox\<close> never throws, whatever the provider answers to the
  release. With no entry for the session it returns and changes nothing. With an entry,
  the release of its sandbox is requested and the entry is removed from the store, the
  other entries being kept, whether the release succeeds or throws. A second call for the
  same session therefore changes nothing and returns normally.
\<close>

theorem terminateSandbox_idempotent:
  "fst (terminateSandbox killOutcome sid w) = Inr ()
   \<and> map_of (sandboxCache (snd (terminateSandbox killOutcome sid w))) =
       (map_of (sandboxCache w))(sid := None)
   \<and> (map_of (sandboxCache w) sid = None \<longrightarrow> terminateSandbox killOutcome sid w = (Inr (), w))
   \<and> (\<forall>e. map_of (sandboxCache w) sid = Some e \<longrightarrow>
         killRequests (snd (terminateSandbox killOutcome sid w)) = killRequests w @ [sandbox e])
   \<and> terminateSandbox killOutcome' sid (snd (terminateSandbox killOutcome sid w)) =
       (Inr (), snd (terminateSandbox killOutcome sid w))"
proof -
  let ?w' = "snd (terminateSandbox killOutcome sid w)"
  have ret: "fst (terminateSandbox killOutcome sid w) = Inr ()"
    by (simp add: terminateSandbox_def Let_def split: option.splits sum.splits)
  have gone: "map_of (sandboxCache ?w') = (map_of (sandboxCache w))(sid := None)"
    by (auto simp: terminateSandbox_def Let_def delete_conv' split: option.splits sum.splits)
  have noop: "terminateSandbox ko sid v = (Inr (), v)" if "map_of (sandboxCache v) sid = None"
    for ko v
    using that by (simp add: terminateSandbox_def)
  have req: "\<forall>e. map_of (sandboxCache w) sid = Some e \<longrightarrow>
         killRequests ?w' = killRequests w @ [sandbox e]"
    by (simp add: terminateSandbox_def Let_def split: sum.splits)
  have "map_of (sandboxCache ?w') sid = None"
    by (simp add: gone)
  then have again: "terminateSandbox killOutcome' sid ?w' = (Inr (), ?w')"
    by (rule noop)
  from ret gone noop req again show ?thesis by blast
qed

theorem terminateSandbox_idempotent_witness:
  "fst (terminateSandbox (Inl (Error ''gone'')) ''s1'' (oneSessionWorld 0 1000)) = Inr ()
   \<and> sandboxCache (snd (terminateSandbox (Inl (Error ''gone'')) ''s1'' (oneSessionWorld 0 1000))) = []
   \<and> killRequests (snd (terminateSandbox (Inl (Error ''gone'')) ''s1'' (oneSessionWorld 0 1000)))
       = [Sandbox ''A'']
   \<and> terminateSandbox (Inr True) ''s1''
        (snd (terminateSandbox (Inl (Error ''gone'')) ''s1'' (oneSessionWorld 0 1000)))
       = (Inr (), snd (terminateSandbox (Inl (Error ''gone'')) ''s1'' (oneSessionWorld 0 1000)))
   \<and> terminateSandbox (Inr True) ''s2'' (oneSessionWorld 0 1000) = (Inr (), oneSessionWorld 0 1000)"
  using terminateSandbox_idempotent [of "Inl (Error ''gone'')" "''s1''" "oneSessionWorld 0 1000" "Inr True"]
    terminateSandbox_idempotent [of "Inr True" "''s2''" "oneSessionWorld 0 1000"]
  by (simp add: oneSessionWorld_def terminateSandbox_def)

section \<open>Stale entries and overlapping calls\<close>

text \<open>
  Claim C3, evaluated on the code. The store holds the session \<open>''s1''\<close> with sandbox
  \<open>A\<close>, created and last used at time 0; a call arrives 30 minutes and one millisecond
  later and the provider creates sandbox \<open>B\<close>. The call returns \<open>B\<close>, the only entry of
  the store now holds \<open>B\<close>, so the entry of \<open>A\<close> has left the store, and no release has
  been requested from the provider.
\<close>

theorem stale_entry_replaced_without_release:
  "fst (getOrCreateSandbox (Inr (Sandbox ''B'')) ''s1'' (oneSessionWorld 0 1800001)) = Inr (Sandbox ''B'')
   \<and> map (sandbox \<circ> snd) (sandboxCache (oneSessionWorld 0 1800001)) = [Sandbox ''A'']
   \<and> map (sandbox \<circ> snd)
        (sandboxCache (snd (getOrCreateSandbox (Inr (Sandbox ''B'')) ''s1'' (oneSessionWorld 0 1800001))))
       = [Sandbox ''B'']
   \<and> killRequests (snd (getOrCreateSandbox (Inr (Sandbox ''B'')) ''s1'' (oneSessionWorld 0 1800001)))
       = []"
proof -
  have stale: "\<not> hasValidEntry (oneSessionWorld 0 1800001) ''s1''"
    by (simp add: hasValidEntry_def oneSessionWorld_def expired_def)
  show ?thesis
    by (simp add: getOrCreateSandbox_fresh [OF stale] create_ok) (simp add: oneSessionWorld_def)
qed

lemma getOrCreateSandbox_create_eq:
  "getOrCreateSandbox_create outcome sid v =
     (creationResult outcome,
      (case outcome of
         Inl err \<Rightarrow> v
       | Inr sb \<Rightarrow>
           v\<lparr>created := created v @ [sb], ticks := Suc (Suc (ticks v)),
             sandboxCache := AList.update sid
               \<lparr>sandbox = sb, sandboxId = handle_sandboxId sb, createdAt = clock v (ticks v),
                 lastUsedAt = clock v (Suc (ticks v)), executionCount = 1\<rparr> (sandboxCache v)\<rparr>))"
  by (cases outcome) (simp_all add: create_ok create_fail creationResult_def)

lemma getOrCreateSandbox_create_created:
  "created (snd (getOrCreateSandbox_create outcome sid v)) = created v @ served outcome"
  by (cases outcome) (simp_all add: create_ok create_fail served_def)

lemma getOrCreateSandbox_cached_created:
  "created (snd (getOrCreateSandbox_cached sid v)) = created v"
  by (simp add: getOrCreateSandbox_cached_def isSessionValid_expired dateNow_def Let_def
      split: option.splits)

text \<open>
  Claim C4, as the code has it. When two calls for the same session overlap and both find
  no valid entry, each of them sends a creation request of its own to the provider and
  returns what its own request gives: the handle, or the wrapped creation error. The
  second call does not wait for the first nor reuse its result. The sandboxes created
  during the two calls are therefore those of the requests that the provider serves, in
  the order in which it settles them: two sandboxes when it serves both requests.
\<close>

theorem overlappingCalls_create_each:
  assumes "\<not> hasValidEntry w sid"
    and "\<not> hasValidEntry (snd (getOrCreateSandbox_cached sid w)) sid"
  shows "fst (overlappingCalls aSettlesFirst outcomeA outcomeB sid w) =
           (None, None, creationResult outcomeA, creationResult outcomeB)
     \<and> created (snd (overlappingCalls aSettlesFirst outcomeA outcomeB sid w)) =
         created w @ (if aSettlesFirst then served outcomeA @ served outcomeB
                      else served outcomeB @ served outcomeA)
     \<and> length (created (snd (overlappingCalls aSettlesFirst outcomeA outcomeB sid w))) =
         length (created w) + length (served outcomeA) + length (served outcomeB)"
proof -
  let ?w1 = "snd (getOrCreateSandbox_cached sid w)"
  let ?w2 = "snd (getOrCreateSandbox_cached sid ?w1)"
  have a: "fst (getOrCreateSandbox_cached sid w) = None"
    using assms(1) cached_found_iff by blast
  have b: "fst (getOrCreateSandbox_cached sid ?w1) = None"
    using assms(2) cached_found_iff by blast
  have w2: "created ?w2 = created w"
    by (simp add: getOrCreateSandbox_cached_created)
  have run: "overlappingCalls aSettlesFirst outcomeA outcomeB sid w =
      ((None, None, creationResult outcomeA, creationResult outcomeB),
       (if aSettlesFirst
        then snd (getOrCreateSandbox_create outcomeB sid (snd (getOrCreateSandbox_create outcomeA sid ?w2)))
        else snd (getOrCreateSandbox_create outcomeA sid (snd (getOrCreateSandbox_create outcomeB sid ?w2)))))"
    using a b
    by (simp add: overlappingCalls_def split_beta Let_def)
      (simp add: getOrCreateSandbox_create_eq)
  have res: "fst (overlappingCalls aSettlesFirst outcomeA outcomeB sid w) =
           (None, None, creationResult outcomeA, creationResult outcomeB)"
    by (simp add: run)
  have log: "created (snd (overlappingCalls aSettlesFirst outcomeA outcomeB sid w)) =
         created w @ (if aSettlesFirst then served outcomeA @ served outcomeB
                      else served outcomeB @ served outcomeA)"
    by (simp add: run getOrCreateSandbox_create_created w2)
  have "length (created (snd (overlappingCalls aSettlesFirst outcomeA outcomeB sid w))) =
         length (created w) + length (served outcomeA) + length (served outcomeB)"
    unfolding log by simp
  with res log show ?thesis by blast
qed

theorem overlappingCalls_create_each_witness:
  "\<not> hasValidEntry (initialWorld 0) ''s1''
   \<and> fst (overlappingCalls True (Inr (Sandbox ''A'')) (Inr (Sandbox ''B'')) ''s1'' (initialWorld 0))
       = (None, None, Inr (Sandbox ''A''), Inr (Sandbox ''B''))
   \<and> created (snd (overlappingCalls True (Inr (Sandbox ''A'')) (Inr (Sandbox ''B'')) ''s1''
        (initialWorld 0))) = [Sandbox ''A'', Sandbox ''B'']
   \<and> fst (overlappingCalls False (Inl (Error ''quota exceeded'')) (Inr (Sandbox ''B'')) ''s1''
        (oneSessionWorld 0 1800001))
       = (None, None, Inl (Error ''Failed to create E2B sandbox: quota exceeded''), Inr (Sandbox ''B''))
   \<and> created (snd (overlappingCalls False (Inl (Error ''quota exceeded'')) (Inr (Sandbox ''B''))
        ''s1'' (oneSessionWorld 0 1800001))) = [Sandbox ''A'', Sandbox ''B'']"
proof -
  have a: "\<not> hasValidEntry (initialWorld 0) ''s1''"
    by (simp add: hasValidEntry_def initialWorld_def)
  have b: "\<not> hasValidEntry (snd (getOrCreateSandbox_cached ''s1'' (initialWorld 0))) ''s1''"
    by (simp add: hasValidEntry_def getOrCreateSandbox_cached_def initialWorld_def)
  have c: "\<not> hasValidEntry (oneSessionWorld 0 1800001) ''s1''"
    by (simp add: hasValidEntry_def oneSessionWorld_def expired_def)
  have d: "\<not> hasValidEntry (snd (getOrCreateSandbox_cached ''s1'' (oneSessionWorld 0 1800001))) ''s1''"
    by (simp add: hasValidEntry_def getOrCreateSandbox_cached_def isSessionValid_expired
        oneSessionWorld_def expired_def)
  show ?thesis
    using a
      overlappingCalls_create_each [OF a b, of True "Inr (Sandbox ''A'')" "Inr (Sandbox ''B'')"]
      overlappingCalls_create_each [OF c d, of False "Inl (Error ''quota exceeded'')"
        "Inr (Sandbox ''B'')"]
    by (simp add: creationResult_def served_def) (simp add: initialWorld_def oneSessionWorld_def)
qed

text \<open>The claim as stated fails for a brand-new session: both overlapping calls find
  nothing, each of them gets a sandbox of its own from the provider, and two sandboxes
  have been created, not one.\<close>

theorem overlappingCalls_not_single_flight:
  "fst (overlappingCalls True (Inr (Sandbox ''A'')) (Inr (Sandbox ''B'')) ''new'' (initialWorld 0))
       = (None, None, Inr (Sandbox ''A''), Inr (Sandbox ''B''))
   \<and> created (initialWorld 0) = []
   \<and> length (created (snd (overlappingCalls True (Inr (Sandbox ''A'')) (Inr (Sandbox ''B'')) ''new''
        (initialWorld 0)))) = 2"
  by (simp add: overlappingCalls_def getOrCreateSandbox_cached_def create_ok initialWorld_def)

text \<open>When the first call finds a valid entry, the schedule creates nothing and both
  calls reuse the cached sandbox.\<close>

lemma overlappingCalls_reuse:
  "fst (overlappingCalls True (Inr (Sandbox ''X'')) (Inr (Sandbox ''Y'')) ''s1'' (oneSessionWorld 0 1000))
     = (Some (Sandbox ''A''), Some (Sandbox ''A''), Inr (Sandbox ''A''), Inr (Sandbox ''A''))
   \<and> created (snd (overlappingCalls True (Inr (Sandbox ''X'')) (Inr (Sandbox ''Y'')) ''s1''
        (oneSessionWorld 0 1000))) = [Sandbox ''A'']"
  by (simp add: overlappingCalls_def getOrCreateSandbox_cached_def isSessionValid_expired
      dateNow_def expired_def oneSessionWorld_def Let_def)

section \<open>Execution never throws\<close>

lemma getOrCreateSandbox_clock:
  "clock (snd (getOrCreateSandbox createOutcome sid w)) = clock w
   \<and> ticks w \<le> ticks (snd (getOrCreateSandbox createOutcome sid w))"
proof (cases "hasValidEntry w sid")
  case True
  then obtain e where "map_of (sandboxCache w) sid = Some e" "\<not> expired (clock w (ticks w)) e"
    by (auto simp: hasValidEntry_def split: option.splits)
  then show ?thesis by (simp add: getOrCreateSandbox_reuse)
next
  case False
  then show ?thesis
    by (cases createOutcome) (simp_all add: getOrCreateSandbox_fresh create_ok create_fail)
qed

text \<open>Every path of \<^verbatim>\<open>executeCode\<close> ends with one more clock reading, taken after the
  sandbox has been resolved (or has failed to be).\<close>

lemma executeCode_final_world:
  "snd (executeCode createOutcome runCode sid code w) =
     (snd (getOrCreateSandbox createOutcome sid (snd (dateNow w))))
       \<lparr>ticks := Suc (ticks (snd (getOrCreateSandbox createOutcome sid (snd (dateNow w)))))\<rparr>"
  by (simp add: executeCode_def executeCode_try_def dateNow_def Let_def split_beta
      split: sum.splits prod.splits)

lemma executeCode_result:
  "fst (executeCode createOutcome runCode sid code w) =
     Inr (case fst (getOrCreateSandbox createOutcome sid (snd (dateNow w))) of
            Inl err \<Rightarrow>
              \<lparr>stdout = [], images = [],
               error = Some (case err of Error m \<Rightarrow> m | NonError \<Rightarrow> ''Unknown execution error''),
               executionTimeMs =
                 clock (snd (getOrCreateSandbox createOutcome sid (snd (dateNow w))))
                   (ticks (snd (getOrCreateSandbox createOutcome sid (snd (dateNow w)))))
                 - clock w (ticks w)\<rparr>
          | Inr sb \<Rightarrow>
              (case runCode sb code of
                 Inl err \<Rightarrow>
                   \<lparr>stdout = [], images = [],
                    error = Some (case err of Error m \<Rightarrow> m | NonError \<Rightarrow> ''Unknown execution error''),
                    executionTimeMs =
                      clock (snd (getOrCreateSandbox createOutcome sid (snd (dateNow w))))
                        (ticks (snd (getOrCreateSandbox createOutcome sid (snd (dateNow w)))))
                      - clock w (ticks w)\<rparr>
               | Inr execution \<Rightarrow>
                   \<lparr>stdout = trim (join (logs_stdout execution) [LF] @ join (logs_stderr execution) [LF]),
                    images = extractImages (results execution) [],
                    error = map_option formatError (exec_error execution),
                    executionTimeMs =
                      clock (snd (getOrCreateSandbox createOutcome sid (snd (dateNow w))))
                        (ticks (snd (getOrCreateSandbox createOutcome sid (snd (dateNow w)))))
                      - clock w (ticks w)\<rparr>))"
  by (simp add: executeCode_def executeCode_try_def dateNow_def Let_def split_beta
      split: sum.splits prod.splits option.splits)

text \<open>
  Claim C1. For every session, code, state and answer of the provider,
  \<^verbatim>\<open>executeCode\<close> returns a result and does not throw. The \<^verbatim>\<open>executionTimeMs\<close> of the
  result is the last clock reading of the call minus its first one, on every path. When
  the provider fails to create the sandbox, the \<^verbatim>\<open>error\<close> of the result is the message
  of the wrapped creation error; when the run itself is rejected (an execution failure or
  a timeout of the provider), it is the message of that rejection, or
  \<^verbatim>\<open>Unknown execution error\<close> when what was thrown is not an \<^verbatim>\<open>Error\<close>; in both cases
  \<^verbatim>\<open>stdout\<close> is empty and there are no images. When the run returns an execution
  that reports an interpreter-level error, the \<^verbatim>\<open>error\<close> of the result is that error,
  formatted.
\<close>

theorem executeCode_never_throws:
  "\<exists>r. fst (executeCode createOutcome runCode sid code w) = Inr r
     \<and> executionTimeMs r =
         clock w (ticks (snd (executeCode createOutcome runCode sid code w)) - 1) - clock w (ticks w)
     \<and> ticks w < ticks (snd (executeCode createOutcome runCode sid code w)) - 1
     \<and> (\<forall>err. \<not> hasValidEntry (snd (dateNow w)) sid \<and> createOutcome = Inl err \<longrightarrow>
           error r = Some (''Failed to create E2B sandbox: '' @
                       (case err of Error m \<Rightarrow> m | NonError \<Rightarrow> ''Unknown error''))
           \<and> stdout r = [] \<and> images r = [])
     \<and> (\<forall>sb err. fst (getOrCreateSandbox createOutcome sid (snd (dateNow w))) = Inr sb
             \<and> runCode sb code = Inl err \<longrightarrow>
           error r = Some (case err of Error m \<Rightarrow> m | NonError \<Rightarrow> ''Unknown execution error'')
           \<and> stdout r = [] \<and> images r = [])
     \<and> (\<forall>sb execution e. fst (getOrCreateSandbox createOutcome sid (snd (dateNow w))) = Inr sb
             \<and> runCode sb code = Inr execution \<and> exec_error execution = Some e \<longrightarrow>
           error r = Some (formatError e))"
proof -
  let ?w0 = "snd (dateNow w)"
  let ?g = "getOrCreateSandbox createOutcome sid ?w0"
  let ?res = "executeCode createOutcome runCode sid code w"
  obtain r where r: "fst ?res = Inr r"
    using executeCode_result by blast
  have w0: "clock ?w0 = clock w" "ticks ?w0 = Suc (ticks w)"
    by (simp_all add: dateNow_def)
  have clk: "clock (snd ?g) = clock w" and tk: "Suc (ticks w) \<le> ticks (snd ?g)"
    using getOrCreateSandbox_clock [of createOutcome sid ?w0] by (simp_all add: w0)
  have fin: "ticks (snd ?res) = Suc (ticks (snd ?g))"
    by (simp add: executeCode_final_world)
  have time: "executionTimeMs r = clock w (ticks (snd ?g)) - clock w (ticks w)"
    using r unfolding executeCode_result
    by (auto simp: clk split: sum.splits)
  have t1: "executionTimeMs r = clock w (ticks (snd ?res) - 1) - clock w (ticks w)"
    by (simp add: time fin)
  have t2: "ticks w < ticks (snd ?res) - 1"
    using tk by (simp add: fin)
  have cf: "error r = Some (''Failed to create E2B sandbox: '' @
                       (case err of Error m \<Rightarrow> m | NonError \<Rightarrow> ''Unknown error''))
           \<and> stdout r = [] \<and> images r = []"
    if "\<not> hasValidEntry ?w0 sid \<and> createOutcome = Inl err" for err
  proof -
    from that have "fst ?g = Inl (Error (''Failed to create E2B sandbox: '' @
                  (case err of Error m \<Rightarrow> m | NonError \<Rightarrow> ''Unknown error'')))"
      by (simp add: getOrCreateSandbox_fresh create_fail)
    with r show ?thesis unfolding executeCode_result by auto
  qed
  have rf: "error r = Some (case err of Error m \<Rightarrow> m | NonError \<Rightarrow> ''Unknown execution error'')
           \<and> stdout r = [] \<and> images r = []"
    if "fst ?g = Inr sb \<and> runCode sb code = Inl err" for sb err
    using that r unfolding executeCode_result by auto
  have ie: "error r = Some (formatError e)"
    if "fst ?g = Inr sb \<and> runCode sb code = Inr execution \<and> exec_error execution = Some e"
    for sb execution e
    using that r unfolding executeCode_result by auto
  from r t1 t2 cf rf ie show ?thesis by blast
qed

theorem executeCode_never_throws_witness:
  "(\<exists>r. fst (executeCode (Inl (Error ''quota exceeded'')) (\<lambda>sb code. Inl NonError) ''s1'' ''x = 1''
            (initialWorld 5)) = Inr r
      \<and> error r = Some ''Failed to create E2B sandbox: quota exceeded''
      \<and> stdout r = [] \<and> images r = [] \<and> executionTimeMs r = 1)
   \<and> (\<exists>r. fst (executeCode (Inr (Sandbox ''A'')) (\<lambda>sb code. Inl (Error ''timeout'')) ''s1'' ''x = 1''
            (initialWorld 5)) = Inr r
      \<and> error r = Some ''timeout''
      \<and> stdout r = [] \<and> images r = [] \<and> executionTimeMs r = 3)"
proof -
  note a = executeCode_never_throws [of "Inl (Error ''quota exceeded'')" "\<lambda>sb code. Inl NonError"
      "''s1''" "''x = 1''" "initialWorld 5"]
  note b = executeCode_never_throws [of "Inr (Sandbox ''A'')" "\<lambda>sb code. Inl (Error ''timeout'')"
      "''s1''" "''x = 1''" "initialWorld 5"]
  have fresh: "\<not> hasValidEntry (snd (dateNow (initialWorld 5))) ''s1''"
    by (simp add: hasValidEntry_def dateNow_def initialWorld_def)
  have ta: "ticks (snd (executeCode (Inl (Error ''quota exceeded'')) (\<lambda>sb code. Inl NonError)
      ''s1'' ''x = 1'' (initialWorld 5))) = 2"
    by (simp add: executeCode_final_world getOrCreateSandbox_fresh [OF fresh] create_fail)
      (simp add: dateNow_def initialWorld_def)
  have g: "getOrCreateSandbox (Inr (Sandbox ''A'')) ''s1'' (snd (dateNow (initialWorld 5))) =
      getOrCreateSandbox_create (Inr (Sandbox ''A'')) ''s1'' (snd (dateNow (initialWorld 5)))"
    by (simp add: getOrCreateSandbox_fresh [OF fresh]) (simp add: dateNow_def initialWorld_def)
  have tb: "ticks (snd (executeCode (Inr (Sandbox ''A'')) (\<lambda>sb code. Inl (Error ''timeout''))
      ''s1'' ''x = 1'' (initialWorld 5))) = 4"
    by (simp add: executeCode_final_world g create_ok) (simp add: dateNow_def initialWorld_def)
  have "\<exists>r. fst (executeCode (Inl (Error ''quota exceeded'')) (\<lambda>sb code. Inl NonError) ''s1'' ''x = 1''
            (initialWorld 5)) = Inr r
      \<and> error r = Some ''Failed to create E2B sandbox: quota exceeded''
      \<and> stdout r = [] \<and> images r = [] \<and> executionTimeMs r = 1"
    using a fresh unfolding ta by (auto simp: initialWorld_def)
  moreover have "\<exists>r. fst (executeCode (Inr (Sandbox ''A'')) (\<lambda>sb code. Inl (Error ''timeout''))
            ''s1'' ''x = 1'' (initialWorld 5)) = Inr r
      \<and> error r = Some ''timeout''
      \<and> stdout r = [] \<and> images r = [] \<and> executionTimeMs r = 3"
    using b unfolding tb g create_ok by (auto simp: initialWorld_def)
  ultimately show ?thesis by (rule conjI)
qed

section \<open>Statistics\<close>











end
